theory Spec2Isabelle
  imports Complex_Main "HOL-Library.Sublist"
begin

section \<open>JavaScript values\<close>

text \<open>
  The values that travel through the lead form, the application shell and the leads
  table: the scalar JavaScript values (objects and arrays do not occur as field values).
  A number is carried by its real value (every finite double is a real; NaN and the
  infinities are not values of \<open>JNum\<close>, and NaN as the result of a conversion is
  \<open>None\<close>).
\<close>

datatype jsval = JUndefined | JNull | JBool bool | JNum real | JStr string

text \<open>ToBoolean, as used by \<^verbatim>\<open>!formData.consent\<close> and \<^verbatim>\<open>lead.consent ? "Yes" : "No"\<close>.\<close>

fun truthy :: "jsval \<Rightarrow> bool" where
  "truthy JUndefined = False"
| "truthy JNull = False"
| "truthy (JBool b) = b"
| "truthy (JNum x) = (x \<noteq> 0)"
| "truthy (JStr s) = (s \<noteq> [])"

text \<open>
  ToNumber. The numeric value of a string is the host's StringToNumber, which is taken
  as the parameter \<open>str_num\<close> (\<open>None\<close> is NaN).
\<close>

fun to_number :: "(string \<Rightarrow> real option) \<Rightarrow> jsval \<Rightarrow> real option" where
  "to_number str_num JUndefined = None"
| "to_number str_num JNull = Some 0"
| "to_number str_num (JBool b) = Some (if b then 1 else 0)"
| "to_number str_num (JNum x) = Some x"
| "to_number str_num (JStr s) = str_num s"

text \<open>\<^verbatim>\<open>score >= c\<close> for a numeric literal \<open>c\<close>: false when the left side is NaN.\<close>

definition js_ge :: "(string \<Rightarrow> real option) \<Rightarrow> jsval \<Rightarrow> real \<Rightarrow> bool" where
  "js_ge str_num v c = (case to_number str_num v of None \<Rightarrow> False | Some x \<Rightarrow> c \<le> x)"

text \<open>The decimal numeral of a natural number and of an integer, as JavaScript prints it.\<close>

definition digit_char :: "nat \<Rightarrow> char" where
  "digit_char d = ''0123456789'' ! d"

fun nat_digits :: "nat \<Rightarrow> string" where
  "nat_digits n =
     (if 10 \<le> n then nat_digits (n div 10) @ [digit_char (n mod 10)] else [digit_char n])"

definition int_digits :: "int \<Rightarrow> string" where
  "int_digits i = (if 0 \<le> i then nat_digits (nat i) else CHR ''-'' # nat_digits (nat (- i)))"

text \<open>
  Number::toString. For an integral value of magnitude at most \<open>2^53\<close> the result is
  its decimal digits; for every other value (fractions, exponent notation) it is the
  host's rendering, taken as the parameter \<open>num_str\<close>.
\<close>

definition number_to_string :: "(real \<Rightarrow> string) \<Rightarrow> real \<Rightarrow> string" where
  "number_to_string num_str x =
     (if x = of_int \<lfloor>x\<rfloor> \<and> \<bar>x\<bar> \<le> 9007199254740992 then int_digits \<lfloor>x\<rfloor> else num_str x)"

text \<open>ToString, as applied by a template literal \<^verbatim>\<open>`${v}`\<close>.\<close>

fun to_string :: "(real \<Rightarrow> string) \<Rightarrow> jsval \<Rightarrow> string" where
  "to_string num_str JUndefined = ''undefined''"
| "to_string num_str JNull = ''null''"
| "to_string num_str (JBool b) = (if b then ''true'' else ''false'')"
| "to_string num_str (JNum x) = number_to_string num_str x"
| "to_string num_str (JStr s) = s"

text \<open>The nullish coalescing operator \<^verbatim>\<open>a ?? b\<close>.\<close>

fun nullish_or :: "jsval \<Rightarrow> jsval \<Rightarrow> jsval" where
  "nullish_or JUndefined d = d"
| "nullish_or JNull d = d"
| "nullish_or v d = v"

text \<open>
  \<^verbatim>\<open>Array.prototype.join\<close>: an element that is undefined or null contributes the empty
  string, every other element its ToString.
\<close>

fun join_elem :: "(real \<Rightarrow> string) \<Rightarrow> jsval \<Rightarrow> string" where
  "join_elem num_str JUndefined = []"
| "join_elem num_str JNull = []"
| "join_elem num_str v = to_string num_str v"

fun join_strings :: "string \<Rightarrow> string list \<Rightarrow> string" where
  "join_strings sep [] = []"
| "join_strings sep [x] = x"
| "join_strings sep (x # y # ys) = x @ sep @ join_strings sep (y # ys)"

definition join :: "(real \<Rightarrow> string) \<Rightarrow> string \<Rightarrow> jsval list \<Rightarrow> string" where
  "join num_str sep row = join_strings sep (map (join_elem num_str) row)"

section \<open>The leads table: score tags\<close>

text \<open>
  \<^verbatim>\<open>getScoreTag\<close> returns one of four spans; the datatype names them by their text
  (N/A in grey, High in green, Mid in yellow, Low in red).
\<close>

datatype tag = NA | High | Mid | Low

definition getScoreTag :: "(string \<Rightarrow> real option) \<Rightarrow> jsval \<Rightarrow> tag" where
  "getScoreTag str_num score =
     (if score = JNull \<or> score = JUndefined then NA
      else if js_ge str_num score 70 then High
      else if js_ge str_num score 40 then Mid
      else Low)"

section \<open>The lead form\<close>

text \<open>
  The draft held by \<^verbatim>\<open>LeadForm\<close> (\<^verbatim>\<open>formData\<close>). A lead record is the draft
  extended by the two scores: \<^verbatim>\<open>{ ...formData, initialScore, rerankedScore }\<close>.
\<close>

record form_data =
  phone :: jsval
  email :: jsval
  creditScore :: jsval
  ageGroup :: jsval
  maritalStatus :: jsval
  comments :: jsval
  consent :: jsval
  annualIncome :: jsval
  netWorth :: jsval
  employmentStatus :: jsval

record lead = form_data +
  initialScore :: jsval
  rerankedScore :: jsval

definition emptyForm :: form_data where
  "emptyForm =
     \<lparr>phone = JStr [], email = JStr [], creditScore = JStr [], ageGroup = JStr [],
      maritalStatus = JStr [], comments = JStr [], consent = JBool False,
      annualIncome = JStr [], netWorth = JStr [], employmentStatus = JStr []\<rparr>"

definition newLead :: "form_data \<Rightarrow> jsval \<Rightarrow> jsval \<Rightarrow> lead" where
  "newLead d i r =
     \<lparr>phone = phone d, email = email d, creditScore = creditScore d, ageGroup = ageGroup d,
      maritalStatus = maritalStatus d, comments = comments d, consent = consent d,
      annualIncome = annualIncome d, netWorth = netWorth d,
      employmentStatus = employmentStatus d, initialScore = i, rerankedScore = r\<rparr>"

text \<open>
  The two alerts of \<^verbatim>\<open>handleSubmit\<close>: "Please consent to data processing." and
  "Something went wrong while submitting. Please check your FastAPI backend.".
\<close>

datatype alert = ConsentAlert | BackendAlert

text \<open>
  The outcome of \<^verbatim>\<open>await axios.post(...)\<close>. The promise is rejected (network error
  or an HTTP error status), or it resolves with \<^verbatim>\<open>response.data\<close>. Destructuring
  \<^verbatim>\<open>{ initialScore, rerankedScore }\<close> from data that is null or undefined throws
  (\<open>NoData\<close>); from any other data it reads the two properties, each undefined when
  it is missing (\<open>Data i r\<close>).
\<close>

datatype response_data = NoData | Data jsval jsval

datatype axios_result = Rejected | Resolved response_data

text \<open>A file handed to the browser for download by \<^verbatim>\<open>link.click()\<close>.\<close>

record download =
  filename :: string
  mime :: string
  content :: string

text \<open>
  The state of the page: the draft and the toast flag of \<^verbatim>\<open>LeadForm\<close>, the sequence
  of \<^verbatim>\<open>App\<close>, the toast flag of \<^verbatim>\<open>LeadsTable\<close>, and the effects so far: the bodies
  posted to the scorer, the alerts shown, the files downloaded. \<open>pending\<close> holds the
  runs of \<^verbatim>\<open>handleSubmit\<close> that are suspended at their \<^verbatim>\<open>await\<close>, oldest first: each
  is the \<^verbatim>\<open>formData\<close> that the run has captured in its closure.
\<close>

record app_state =
  formData :: form_data
  showToastForm :: bool
  leads :: "lead list"
  showToastTable :: bool
  posted :: "form_data list"
  alerts :: "alert list"
  downloads :: "download list"
  pending :: "form_data list"

definition initialState :: app_state where
  "initialState =
     \<lparr>formData = emptyForm, showToastForm = False, leads = [], showToastTable = False,
      posted = [], alerts = [], downloads = [], pending = []\<rparr>"

text \<open>The \<^verbatim>\<open>onChange\<close> handlers: \<^verbatim>\<open>setFormData({ ...formData, phone: e.target.value })\<close>.\<close>

datatype field_edit =
    SetPhone string | SetEmail string | SetCreditScore string | SetAgeGroup string
  | SetMaritalStatus string | SetAnnualIncome string | SetNetWorth string
  | SetEmploymentStatus string | SetComments string | SetConsent bool

fun update_field :: "field_edit \<Rightarrow> form_data \<Rightarrow> form_data" where
  "update_field (SetPhone v) d = d\<lparr>phone := JStr v\<rparr>"
| "update_field (SetEmail v) d = d\<lparr>email := JStr v\<rparr>"
| "update_field (SetCreditScore v) d = d\<lparr>creditScore := JStr v\<rparr>"
| "update_field (SetAgeGroup v) d = d\<lparr>ageGroup := JStr v\<rparr>"
| "update_field (SetMaritalStatus v) d = d\<lparr>maritalStatus := JStr v\<rparr>"
| "update_field (SetAnnualIncome v) d = d\<lparr>annualIncome := JStr v\<rparr>"
| "update_field (SetNetWorth v) d = d\<lparr>netWorth := JStr v\<rparr>"
| "update_field (SetEmploymentStatus v) d = d\<lparr>employmentStatus := JStr v\<rparr>"
| "update_field (SetComments v) d = d\<lparr>comments := JStr v\<rparr>"
| "update_field (SetConsent b) d = d\<lparr>consent := JBool b\<rparr>"

text \<open>\<^verbatim>\<open>App.handleLeadSubmit\<close>: \<^verbatim>\<open>setLeads((prev) => [...prev, leadData])\<close>.\<close>

definition handleLeadSubmit :: "lead \<Rightarrow> app_state \<Rightarrow> app_state" where
  "handleLeadSubmit leadData s = s\<lparr>leads := leads s @ [leadData]\<rparr>"

text \<open>
  \<^verbatim>\<open>LeadForm.handleSubmit\<close>, given the outcome of the scoring call. Both the rejected
  promise and the destructuring of missing data end in the \<^verbatim>\<open>catch\<close> block. This
  is the handler from its first line to its last when nothing else happens while the call
  is in flight; its console output is not part of the state.
\<close>

definition handleSubmit :: "axios_result \<Rightarrow> app_state \<Rightarrow> app_state" where
  "handleSubmit res s =
     (if \<not> truthy (consent (formData s)) then s\<lparr>alerts := alerts s @ [ConsentAlert]\<rparr>
      else
        let s1 = s\<lparr>posted := posted s @ [formData s]\<rparr> in
        case res of
          Rejected \<Rightarrow> s1\<lparr>alerts := alerts s1 @ [BackendAlert]\<rparr>
        | Resolved NoData \<Rightarrow> s1\<lparr>alerts := alerts s1 @ [BackendAlert]\<rparr>
        | Resolved (Data i r) \<Rightarrow>
            (handleLeadSubmit (newLead (formData s) i r) s1)
              \<lparr>showToastForm := True, formData := emptyForm\<rparr>)"

text \<open>
  The handler is asynchronous: it runs up to \<^verbatim>\<open>await axios.post(...)\<close> and is
  suspended there while the page goes on reacting; the rest of it runs when the reply
  arrives, on the \<^verbatim>\<open>formData\<close> of its closure. \<open>submit_start\<close> is the first part
  (lines 32 to 40), \<open>submit_reply\<close> the second (lines 41 to 72) for the captured draft
  \<open>d\<close>.
\<close>

definition submit_start :: "app_state \<Rightarrow> app_state" where
  "submit_start s =
     (if \<not> truthy (consent (formData s)) then s\<lparr>alerts := alerts s @ [ConsentAlert]\<rparr>
      else s\<lparr>posted := posted s @ [formData s], pending := pending s @ [formData s]\<rparr>)"

definition submit_reply :: "form_data \<Rightarrow> axios_result \<Rightarrow> app_state \<Rightarrow> app_state" where
  "submit_reply d res s =
     (case res of
        Rejected \<Rightarrow> s\<lparr>alerts := alerts s @ [BackendAlert]\<rparr>
      | Resolved NoData \<Rightarrow> s\<lparr>alerts := alerts s @ [BackendAlert]\<rparr>
      | Resolved (Data i r) \<Rightarrow>
          (handleLeadSubmit (newLead d i r) s)\<lparr>showToastForm := True, formData := emptyForm\<rparr>)"

section \<open>The form's native constraints\<close>

text \<open>
  The \<^verbatim>\<open><form>\<close> has no \<^verbatim>\<open>noValidate\<close>, so a click on the submit button reaches
  \<^verbatim>\<open>handleSubmit\<close> only when every control satisfies its constraints. From the
  attributes: every control but the comments is \<^verbatim>\<open>required\<close>; the credit score and
  the two amounts are \<^verbatim>\<open>type="number"\<close>, whose value is a valid floating-point number
  or empty; the credit score has \<^verbatim>\<open>min="300" max="850"\<close> and the default step 1,
  counted from the minimum.

  A valid floating-point number is an optional minus sign, then digits, or a dot with
  digits, or both, then optionally an exponent: \<^verbatim>\<open>e\<close> or \<^verbatim>\<open>E\<close>, an optional sign,
  digits. \<open>parse_number\<close> gives its exact value.
\<close>

definition is_digit :: "char \<Rightarrow> bool" where
  "is_digit c = (c \<in> set ''0123456789'')"

definition digits_value :: "string \<Rightarrow> nat" where
  "digits_value cs = foldl (\<lambda>n c. 10 * n + (of_char c - 48)) 0 cs"

definition parse_mantissa :: "string \<Rightarrow> real option" where
  "parse_mantissa m =
     (let ip = takeWhile is_digit m; rest = dropWhile is_digit m in
      case rest of
        [] \<Rightarrow> if ip = [] then None else Some (real (digits_value ip))
      | c # fr \<Rightarrow>
          if c = CHR ''.'' \<and> fr \<noteq> [] \<and> list_all is_digit fr
          then Some (real (digits_value ip) + real (digits_value fr) / 10 ^ length fr)
          else None)"

definition parse_exponent :: "string \<Rightarrow> int option" where
  "parse_exponent e =
     (case e of
        [] \<Rightarrow> None
      | c # ds \<Rightarrow>
          if c = CHR ''-'' then
            (if ds \<noteq> [] \<and> list_all is_digit ds then Some (- int (digits_value ds)) else None)
          else if c = CHR ''+'' then
            (if ds \<noteq> [] \<and> list_all is_digit ds then Some (int (digits_value ds)) else None)
          else if list_all is_digit e then Some (int (digits_value e)) else None)"

definition scale10 :: "real \<Rightarrow> int \<Rightarrow> real" where
  "scale10 x k = (if 0 \<le> k then x * 10 ^ nat k else x / 10 ^ nat (- k))"

definition parse_unsigned :: "string \<Rightarrow> real option" where
  "parse_unsigned u =
     (let m = takeWhile (\<lambda>c. c \<noteq> CHR ''e'' \<and> c \<noteq> CHR ''E'') u;
          r = dropWhile (\<lambda>c. c \<noteq> CHR ''e'' \<and> c \<noteq> CHR ''E'') u in
      case parse_mantissa m of
        None \<Rightarrow> None
      | Some x \<Rightarrow>
          (case r of
             [] \<Rightarrow> Some x
           | c # e \<Rightarrow> (case parse_exponent e of None \<Rightarrow> None | Some k \<Rightarrow> Some (scale10 x k))))"

definition parse_number :: "string \<Rightarrow> real option" where
  "parse_number t =
     (case t of
        [] \<Rightarrow> None
      | c # u \<Rightarrow>
          if c = CHR ''-'' then (case parse_unsigned u of None \<Rightarrow> None | Some x \<Rightarrow> Some (- x))
          else parse_unsigned t)"

text \<open>
  What the browser contributes beyond the attributes: \<open>number_text\<close> is its
  Number::toString for the values that \<open>number_to_string\<close> leaves to it, \<open>to_double\<close>
  rounds the exact value of a numeral to the number the browser computes with, and
  \<open>other_constraints\<close> is its verdict on what the attributes leave open (the syntax
  of the e-mail address, the step of the two amounts, whose base depends on the
  \<^verbatim>\<open>value\<close> attribute of the element).
\<close>

record browser =
  number_text :: "real \<Rightarrow> string"
  to_double :: "real \<Rightarrow> real"
  other_constraints :: "form_data \<Rightarrow> bool"

text \<open>
  The constraints, control by control. The draft holds the text of each control as a
  string and the state of the checkbox as a boolean; a value of another kind does not
  pass.
\<close>

fun required_text :: "jsval \<Rightarrow> bool" where
  "required_text (JStr t) = (t \<noteq> [])"
| "required_text v = False"

fun required_number :: "jsval \<Rightarrow> bool" where
  "required_number (JStr t) = (parse_number t \<noteq> None)"
| "required_number v = False"

definition in_credit_range :: "real \<Rightarrow> bool" where
  "in_credit_range x = (300 \<le> x \<and> x \<le> 850 \<and> x - 300 = of_int \<lfloor>x - 300\<rfloor>)"

fun creditScore_valid :: "(real \<Rightarrow> real) \<Rightarrow> jsval \<Rightarrow> bool" where
  "creditScore_valid rnd (JStr t) =
     (case parse_number t of None \<Rightarrow> False | Some q \<Rightarrow> in_credit_range (rnd q))"
| "creditScore_valid rnd v = False"

definition checkValidity :: "browser \<Rightarrow> form_data \<Rightarrow> bool" where
  "checkValidity b d =
     (required_text (phone d) \<and> required_text (email d)
      \<and> creditScore_valid (to_double b) (creditScore d)
      \<and> required_text (ageGroup d) \<and> required_text (maritalStatus d)
      \<and> required_number (annualIncome d) \<and> required_number (netWorth d)
      \<and> required_text (employmentStatus d) \<and> truthy (consent d)
      \<and> other_constraints b d)"

section \<open>The leads table: CSV export and rows\<close>

definition headers :: "jsval list" where
  "headers =
     [JStr ''Phone'', JStr ''Email'', JStr ''Credit Score'', JStr ''Age Group'',
      JStr ''Marital Status'', JStr ''Comments'', JStr ''Consent'', JStr ''Initial Score'',
      JStr ''Reranked Score'']"

definition csv_row :: "(real \<Rightarrow> string) \<Rightarrow> lead \<Rightarrow> jsval list" where
  "csv_row num_str l =
     [phone l, email l, creditScore l, ageGroup l, maritalStatus l,
      JStr ([CHR 0x22] @ to_string num_str (comments l) @ [CHR 0x22]),
      JStr (if truthy (consent l) then ''Yes'' else ''No''),
      nullish_or (initialScore l) (JStr ''N/A''),
      nullish_or (rerankedScore l) (JStr ''N/A'')]"

definition csvContent :: "(real \<Rightarrow> string) \<Rightarrow> lead list \<Rightarrow> string" where
  "csvContent num_str ls =
     join_strings [CHR 0x0A] (map (join num_str '','') (headers # map (csv_row num_str) ls))"

definition exportToCSV :: "(real \<Rightarrow> string) \<Rightarrow> app_state \<Rightarrow> app_state" where
  "exportToCSV num_str s =
     (if length (leads s) = 0 then s
      else s\<lparr>downloads := downloads s @
                 [\<lparr>filename = ''leads_export.csv'', mime = ''text/csv;charset=utf-8;'',
                   content = csvContent num_str (leads s)\<rparr>],
              showToastTable := True\<rparr>)"

text \<open>A cell of the rendered table: a value shown as it is, or a score tag.\<close>

datatype cell = Text jsval | Tag tag

definition table_row :: "(string \<Rightarrow> real option) \<Rightarrow> lead \<Rightarrow> cell list" where
  "table_row str_num l =
     [Text (phone l), Text (email l), Text (creditScore l), Text (ageGroup l),
      Text (maritalStatus l), Text (comments l),
      Text (JStr (if truthy (consent l) then ''Yes'' else ''No'')),
      Tag (getScoreTag str_num (initialScore l)),
      Tag (getScoreTag str_num (rerankedScore l))]"

section \<open>The page as a transition system\<close>

text \<open>
  Everything the page reacts to: an edit of a field; a click on the submit button, which
  starts a run of \<^verbatim>\<open>handleSubmit\<close> when the constraints hold; the reply to one of the
  calls in flight (the one at position \<open>k\<close> of \<open>pending\<close>), with which the suspended
  run finishes; a click on the export button; and the two timers that hide the toasts.
  Runs of the handler overlap, and replies arrive in any order.
\<close>

datatype event =
    Edit field_edit | Submit | Reply nat axios_result | Export
  | FormToastTimeout | TableToastTimeout

fun step :: "browser \<Rightarrow> event \<Rightarrow> app_state \<Rightarrow> app_state" where
  "step b (Edit e) s = s\<lparr>formData := update_field e (formData s)\<rparr>"
| "step b Submit s = (if checkValidity b (formData s) then submit_start s else s)"
| "step b (Reply k res) s =
     (if k < length (pending s)
      then submit_reply (pending s ! k) res
             (s\<lparr>pending := take k (pending s) @ drop (Suc k) (pending s)\<rparr>)
      else s)"
| "step b Export s = exportToCSV (number_text b) s"
| "step b FormToastTimeout s = s\<lparr>showToastForm := False\<rparr>"
| "step b TableToastTimeout s = s\<lparr>showToastTable := False\<rparr>"

fun run :: "browser \<Rightarrow> event list \<Rightarrow> app_state \<Rightarrow> app_state" where
  "run b [] s = s"
| "run b (ev # evs) s = run b evs (step b ev s)"

section \<open>Reference definitions\<close>

text \<open>
  The CSV document as the specification words it: the fixed header line, then one line
  per record in sequence order. In a line the first five fields are rendered as the
  array join renders them, the comments are wrapped in double quotes with nothing
  escaped, the consent is Yes or No, and a score that is null or undefined is N/A.
\<close>

definition spec_header :: string where
  "spec_header =
     ''Phone,Email,Credit Score,Age Group,Marital Status,Comments,Consent,Initial Score,Reranked Score''"

definition spec_score :: "(real \<Rightarrow> string) \<Rightarrow> jsval \<Rightarrow> string" where
  "spec_score num_str v = (if v = JNull \<or> v = JUndefined then ''N/A'' else to_string num_str v)"

definition spec_line :: "(real \<Rightarrow> string) \<Rightarrow> lead \<Rightarrow> string" where
  "spec_line num_str l =
     join_elem num_str (phone l) @ '','' @ join_elem num_str (email l) @ '','' @
     join_elem num_str (creditScore l) @ '','' @ join_elem num_str (ageGroup l) @ '','' @
     join_elem num_str (maritalStatus l) @ '','' @
     [CHR 0x22] @ to_string num_str (comments l) @ [CHR 0x22] @ '','' @
     (if truthy (consent l) then ''Yes'' else ''No'') @ '','' @
     spec_score num_str (initialScore l) @ '','' @ spec_score num_str (rerankedScore l)"

fun spec_lines :: "(real \<Rightarrow> string) \<Rightarrow> lead list \<Rightarrow> string" where
  "spec_lines num_str [] = []"
| "spec_lines num_str (l # ls) = CHR 0x0A # spec_line num_str l @ spec_lines num_str ls"

definition spec_csv :: "(real \<Rightarrow> string) \<Rightarrow> lead list \<Rightarrow> string" where
  "spec_csv num_str ls = spec_header @ spec_lines num_str ls"

text \<open>The lines of a text, as \<^verbatim>\<open>split("\n")\<close> gives them.\<close>

fun text_lines :: "string \<Rightarrow> string list" where
  "text_lines [] = [[]]"
| "text_lines (c # cs) =
     (if c = CHR 0x0A then [] # text_lines cs
      else (case text_lines cs of [] \<Rightarrow> [[c]] | l # ls \<Rightarrow> (c # l) # ls))"


text \<open>A reply that reports success and carries the two values.\<close>

fun is_success :: "event \<Rightarrow> bool" where
  "is_success (Reply k (Resolved (Data i r))) = True"
| "is_success ev = False"

text \<open>An event that neither starts a run of the handler nor finishes one.\<close>

fun is_quiet :: "event \<Rightarrow> bool" where
  "is_quiet Submit = False"
| "is_quiet (Reply k res) = False"
| "is_quiet ev = True"

text \<open>The part of a record that came from the draft.\<close>

definition draft_of :: "lead \<Rightarrow> form_data" where
  "draft_of l =
     \<lparr>phone = phone l, email = email l, creditScore = creditScore l, ageGroup = ageGroup l,
      maritalStatus = maritalStatus l, comments = comments l, consent = consent l,
      annualIncome = annualIncome l, netWorth = netWorth l,
      employmentStatus = employmentStatus l\<rparr>"

text \<open>
  The invariant of the page: the consent of the draft is a boolean; every draft in
  flight and every record has consent true and a valid credit score, and was posted to
  the scorer.
\<close>

fun is_bool :: "jsval \<Rightarrow> bool" where
  "is_bool (JBool c) = True"
| "is_bool v = False"

definition page_inv :: "browser \<Rightarrow> app_state \<Rightarrow> bool" where
  "page_inv b s =
     (is_bool (consent (formData s))
      \<and> list_all (\<lambda>d. consent d = JBool True \<and> creditScore_valid (to_double b) (creditScore d)
            \<and> d \<in> set (posted s)) (pending s)
      \<and> list_all (\<lambda>l. consent l = JBool True \<and> creditScore_valid (to_double b) (creditScore l)
            \<and> draft_of l \<in> set (posted s)) (leads s))"

section \<open>Score tags\<close>

text \<open>
  C4: \<open>getScoreTag\<close> is a total function of the score. On a number it is High from 70
  upwards, Mid from 40 up to but excluding 70, and Low below 40; on an absent score
  (undefined or null) it is N/A. In particular 70 is High, 69.999 is Mid, 40 is Mid and
  39.999 is Low.
\<close>

theorem getScoreTag_total:
  "getScoreTag str_num (JNum s) = (if 70 \<le> s then High else if 40 \<le> s then Mid else Low)
   \<and> getScoreTag str_num JUndefined = NA
   \<and> getScoreTag str_num JNull = NA
   \<and> getScoreTag str_num (JNum 70) = High
   \<and> getScoreTag str_num (JNum 69.999) = Mid
   \<and> getScoreTag str_num (JNum 40) = Mid
   \<and> getScoreTag str_num (JNum 39.999) = Low"
  by (simp add: getScoreTag_def js_ge_def)

theorem getScoreTag_total_witness:
  "getScoreTag Map.empty (JNum 85) = High \<and> getScoreTag Map.empty (JNum 55.5) = Mid
   \<and> getScoreTag Map.empty (JNum (- 3)) = Low"
  using getScoreTag_total [of Map.empty 85] getScoreTag_total [of Map.empty "55.5"]
    getScoreTag_total [of Map.empty "- 3"]
  by simp

text \<open>
  C10: a null score is tagged N/A like an undefined one, not Low; so the table shows
  N/A in the score cell of a lead whose score came back as null.
\<close>

theorem getScoreTag_null:
  "getScoreTag str_num JNull = NA
   \<and> (rerankedScore l = JNull \<longrightarrow> table_row str_num l ! 8 = Tag NA)
   \<and> (initialScore l = JNull \<longrightarrow> table_row str_num l ! 7 = Tag NA)"
  by (simp add: getScoreTag_def table_row_def)

theorem getScoreTag_null_witness:
  "rerankedScore (newLead emptyForm JNull JNull) = JNull
   \<and> initialScore (newLead emptyForm JNull JNull) = JNull
   \<and> table_row Map.empty (newLead emptyForm JNull JNull) ! 8 = Tag NA
   \<and> table_row Map.empty (newLead emptyForm JNull JNull) ! 7 = Tag NA"
  using getScoreTag_null [of Map.empty "newLead emptyForm JNull JNull"]
  by (simp add: newLead_def)

section \<open>Submission\<close>

text \<open>
  C1: when the draft has consent true and the scoring call resolves with the values
  \<open>i\<close> and \<open>r\<close>, \<open>handleSubmit\<close> appends exactly one record to the sequence: the
  sequence is one longer and its old records are unchanged. The new record carries
  \<open>i\<close> and \<open>r\<close> as its scores and the draft's value in every other field, and the
  draft is reset to the empty form: every text field empty, consent false.
\<close>

theorem handleSubmit_success:
  assumes "consent (formData s) = JBool True"
    and "s' = handleSubmit (Resolved (Data i r)) s"
  shows "leads s' = leads s @ [newLead (formData s) i r]
     \<and> length (leads s') = length (leads s) + 1
     \<and> take (length (leads s)) (leads s') = leads s
     \<and> initialScore (last (leads s')) = i
     \<and> rerankedScore (last (leads s')) = r
     \<and> phone (last (leads s')) = phone (formData s)
     \<and> email (last (leads s')) = email (formData s)
     \<and> creditScore (last (leads s')) = creditScore (formData s)
     \<and> ageGroup (last (leads s')) = ageGroup (formData s)
     \<and> maritalStatus (last (leads s')) = maritalStatus (formData s)
     \<and> comments (last (leads s')) = comments (formData s)
     \<and> consent (last (leads s')) = consent (formData s)
     \<and> annualIncome (last (leads s')) = annualIncome (formData s)
     \<and> netWorth (last (leads s')) = netWorth (formData s)
     \<and> employmentStatus (last (leads s')) = employmentStatus (formData s)
     \<and> formData s' = emptyForm
     \<and> formData s' =
         \<lparr>phone = JStr [], email = JStr [], creditScore = JStr [], ageGroup = JStr [],
          maritalStatus = JStr [], comments = JStr [], consent = JBool False,
          annualIncome = JStr [], netWorth = JStr [], employmentStatus = JStr []\<rparr>"
  using assms by (simp add: handleSubmit_def handleLeadSubmit_def newLead_def emptyForm_def)

theorem handleSubmit_success_witness:
  "consent (formData (initialState\<lparr>formData := update_field (SetConsent True) emptyForm\<rparr>)) =
     JBool True
   \<and> length (leads (handleSubmit (Resolved (Data (JNum 80) JNull))
        (initialState\<lparr>formData := update_field (SetConsent True) emptyForm\<rparr>))) = 1
   \<and> initialScore (last (leads (handleSubmit (Resolved (Data (JNum 80) JNull))
        (initialState\<lparr>formData := update_field (SetConsent True) emptyForm\<rparr>)))) = JNum 80
   \<and> rerankedScore (last (leads (handleSubmit (Resolved (Data (JNum 80) JNull))
        (initialState\<lparr>formData := update_field (SetConsent True) emptyForm\<rparr>)))) = JNull
   \<and> formData (handleSubmit (Resolved (Data (JNum 80) JNull))
        (initialState\<lparr>formData := update_field (SetConsent True) emptyForm\<rparr>)) = emptyForm"
proof -
  let ?s = "initialState\<lparr>formData := update_field (SetConsent True) emptyForm\<rparr>"
  have c: "consent (formData ?s) = JBool True"
    by simp
  have e: "length (leads ?s) = 0"
    by (simp add: initialState_def)
  note t = handleSubmit_success [OF c refl, of "JNum 80" JNull]
  from t have "length (leads (handleSubmit (Resolved (Data (JNum 80) JNull)) ?s)) =
      length (leads ?s) + 1"
    by blast
  with e have l: "length (leads (handleSubmit (Resolved (Data (JNum 80) JNull)) ?s)) = 1"
    by simp
  from t have i: "initialScore (last (leads (handleSubmit (Resolved (Data (JNum 80) JNull)) ?s))) =
      JNum 80"
    by blast
  from t have r: "rerankedScore (last (leads (handleSubmit (Resolved (Data (JNum 80) JNull)) ?s))) =
      JNull"
    by blast
  from t have f: "formData (handleSubmit (Resolved (Data (JNum 80) JNull)) ?s) = emptyForm"
    by blast
  from c l i r f show ?thesis by blast
qed

text \<open>
  C5: when the draft has consent false, \<open>handleSubmit\<close> only shows the consent alert:
  whatever the scorer would have answered, no record is appended, nothing is posted to
  the scorer, and the draft is unchanged.
\<close>

theorem handleSubmit_no_consent:
  assumes "consent (formData s) = JBool False"
  shows "handleSubmit res s = s\<lparr>alerts := alerts s @ [ConsentAlert]\<rparr>
     \<and> leads (handleSubmit res s) = leads s
     \<and> posted (handleSubmit res s) = posted s
     \<and> formData (handleSubmit res s) = formData s"
  using assms by (simp add: handleSubmit_def)

theorem handleSubmit_no_consent_witness:
  "consent (formData initialState) = JBool False
   \<and> leads (handleSubmit (Resolved (Data (JNum 80) (JNum 75))) initialState) = []
   \<and> posted (handleSubmit (Resolved (Data (JNum 80) (JNum 75))) initialState) = []
   \<and> formData (handleSubmit (Resolved (Data (JNum 80) (JNum 75))) initialState) = emptyForm"
proof -
  have c: "consent (formData initialState) = JBool False"
    by (simp add: initialState_def emptyForm_def)
  from handleSubmit_no_consent [OF c, of "Resolved (Data (JNum 80) (JNum 75))"] c
  show ?thesis by (simp add: initialState_def)
qed

text \<open>
  C6: when the scoring call fails (the promise is rejected, or the response carries no
  data to read the scores from), \<open>handleSubmit\<close> leaves the sequence and the draft as
  they were, for every draft; it shows no toast and adds one alert, the backend alert
  when the call was made.
\<close>

theorem handleSubmit_failure:
  assumes "res = Rejected \<or> res = Resolved NoData"
  shows "leads (handleSubmit res s) = leads s
     \<and> length (leads (handleSubmit res s)) = length (leads s)
     \<and> formData (handleSubmit res s) = formData s
     \<and> showToastForm (handleSubmit res s) = showToastForm s
     \<and> showToastTable (handleSubmit res s) = showToastTable s
     \<and> downloads (handleSubmit res s) = downloads s
     \<and> alerts (handleSubmit res s) =
         alerts s @ [if truthy (consent (formData s)) then BackendAlert else ConsentAlert]"
  using assms by (auto simp add: handleSubmit_def)

theorem handleSubmit_failure_witness:
  "(Rejected = Rejected \<or> Rejected = Resolved NoData)
   \<and> leads (handleSubmit Rejected
        (initialState\<lparr>formData := update_field (SetConsent True) emptyForm\<rparr>)) = []
   \<and> formData (handleSubmit Rejected
        (initialState\<lparr>formData := update_field (SetConsent True) emptyForm\<rparr>)) =
       emptyForm\<lparr>consent := JBool True\<rparr>
   \<and> alerts (handleSubmit Rejected
        (initialState\<lparr>formData := update_field (SetConsent True) emptyForm\<rparr>)) =
       [BackendAlert]"
  using handleSubmit_failure [of Rejected
      "initialState\<lparr>formData := update_field (SetConsent True) emptyForm\<rparr>"]
  by (simp add: initialState_def)

section \<open>CSV export\<close>

text \<open>
  C8: with an empty sequence \<open>exportToCSV\<close> does nothing: the state is unchanged, so
  no file is downloaded and the toast of the table is not shown.
\<close>

theorem exportToCSV_empty:
  assumes "leads s = []"
  shows "exportToCSV num_str s = s
     \<and> downloads (exportToCSV num_str s) = downloads s
     \<and> showToastTable (exportToCSV num_str s) = showToastTable s"
  using assms by (simp add: exportToCSV_def)

theorem exportToCSV_empty_witness:
  "leads initialState = [] \<and> exportToCSV (int_digits \<circ> floor) initialState = initialState
   \<and> downloads (exportToCSV (int_digits \<circ> floor) initialState) = []"
proof -
  have e: "leads initialState = []" by (simp add: initialState_def)
  from exportToCSV_empty [OF e, of "int_digits \<circ> floor"] e
  show ?thesis by (simp add: initialState_def)
qed

lemma join_strings_Cons:
  "join_strings sep (x # xs) = x @ concat (map (\<lambda>y. sep @ y) xs)"
  by (induction xs arbitrary: x) simp_all

lemma nullish_or_score:
  "join_elem num_str (nullish_or v (JStr ''N/A'')) = spec_score num_str v"
  by (cases v) (simp_all add: spec_score_def)

lemma join_csv_row: "join num_str '','' (csv_row num_str l) = spec_line num_str l"
  by (simp add: join_def csv_row_def spec_line_def nullish_or_score)

lemma join_headers: "join num_str '','' headers = spec_header"
  by (simp add: join_def headers_def spec_header_def)

lemma spec_lines_concat:
  "spec_lines num_str ls = concat (map (\<lambda>l. [CHR 0x0A] @ spec_line num_str l) ls)"
  by (induction ls) simp_all

lemma csvContent_spec: "csvContent num_str ls = spec_csv num_str ls"
  by (simp add: csvContent_def spec_csv_def join_strings_Cons join_headers join_csv_row
      spec_lines_concat comp_def del: join_strings.simps)

lemma text_lines_no_newline: "CHR 0x0A \<notin> set a \<Longrightarrow> text_lines a = [a]"
  by (induction a) auto

lemma text_lines_first:
  "CHR 0x0A \<notin> set a \<Longrightarrow> text_lines (a @ CHR 0x0A # b) = a # text_lines b"
  by (induction a) auto

lemma header_no_newline: "CHR 0x0A \<notin> set spec_header"
  by (simp add: spec_header_def)

lemma hd_spec_csv: "hd (text_lines (spec_csv num_str ls)) = spec_header"
  by (cases ls) (simp_all add: spec_csv_def text_lines_no_newline text_lines_first header_no_newline)

text \<open>
  C3: with a sequence that is not empty, \<open>exportToCSV\<close> downloads one file,
  \<^verbatim>\<open>leads_export.csv\<close>, whose content is the reference document \<open>spec_csv\<close>: the header
  line of nine columns, then one line per record in sequence order, with the consent as
  Yes or No, a null or undefined score as N/A, and the comments between double quotes
  with nothing escaped. Its first line is the header, and for the single record of the
  specification's example the second line is \<^verbatim>\<open>A,a@x.com,700,18-25,Single,"hi",Yes,80,N/A\<close>.
\<close>

theorem exportToCSV_document:
  assumes "leads s \<noteq> []"
  shows "downloads (exportToCSV num_str s) =
       downloads s @ [\<lparr>filename = ''leads_export.csv'', mime = ''text/csv;charset=utf-8;'',
                       content = csvContent num_str (leads s)\<rparr>]
     \<and> csvContent num_str (leads s) = spec_csv num_str (leads s)
     \<and> hd (text_lines (csvContent num_str (leads s))) =
         ''Phone,Email,Credit Score,Age Group,Marital Status,Comments,Consent,Initial Score,Reranked Score''
     \<and> text_lines (csvContent num_str
         [\<lparr>phone = JStr ''A'', email = JStr ''a@x.com'', creditScore = JNum 700,
           ageGroup = JStr ''18-25'', maritalStatus = JStr ''Single'', comments = JStr ''hi'',
           consent = JBool True, annualIncome = JNum 1, netWorth = JNum 1,
           employmentStatus = JStr ''Employed'', initialScore = JNum 80,
           rerankedScore = JNull\<rparr>]) ! 1 =
         ''A,a@x.com,700,18-25,Single,'' @ [CHR 0x22] @ ''hi'' @ [CHR 0x22] @ '',Yes,80,N/A''"
proof -
  have d: "downloads (exportToCSV num_str s) =
       downloads s @ [\<lparr>filename = ''leads_export.csv'', mime = ''text/csv;charset=utf-8;'',
                       content = csvContent num_str (leads s)\<rparr>]"
    using assms by (simp add: exportToCSV_def)
  have h: "hd (text_lines (csvContent num_str (leads s))) =
         ''Phone,Email,Credit Score,Age Group,Marital Status,Comments,Consent,Initial Score,Reranked Score''"
    using hd_spec_csv [of num_str "leads s"] by (simp only: csvContent_spec spec_header_def)
  have e: "text_lines (csvContent num_str
         [\<lparr>phone = JStr ''A'', email = JStr ''a@x.com'', creditScore = JNum 700,
           ageGroup = JStr ''18-25'', maritalStatus = JStr ''Single'', comments = JStr ''hi'',
           consent = JBool True, annualIncome = JNum 1, netWorth = JNum 1,
           employmentStatus = JStr ''Employed'', initialScore = JNum 80,
           rerankedScore = JNull\<rparr>]) ! 1 =
         ''A,a@x.com,700,18-25,Single,'' @ [CHR 0x22] @ ''hi'' @ [CHR 0x22] @ '',Yes,80,N/A''"
    by (simp add: csvContent_spec spec_csv_def spec_header_def spec_line_def spec_score_def
        number_to_string_def int_digits_def digit_char_def)
  from d h e show ?thesis by (simp only: csvContent_spec simp_thms)
qed

theorem exportToCSV_document_witness:
  "leads (handleLeadSubmit (newLead (update_field (SetPhone ''A'') emptyForm) JUndefined (JNum 80))
      initialState) \<noteq> []
   \<and> downloads (exportToCSV (int_digits \<circ> floor)
        (handleLeadSubmit (newLead (update_field (SetPhone ''A'') emptyForm) JUndefined (JNum 80))
          initialState)) =
       [\<lparr>filename = ''leads_export.csv'', mime = ''text/csv;charset=utf-8;'',
         content = ''Phone,Email,Credit Score,Age Group,Marital Status,Comments,Consent,Initial Score,Reranked Score''
           @ [CHR 0x0A] @ ''A,,,,,'' @ [CHR 0x22, CHR 0x22] @ '',No,N/A,80''\<rparr>]"
proof -
  let ?s = "handleLeadSubmit (newLead (update_field (SetPhone ''A'') emptyForm) JUndefined (JNum 80))
      initialState"
  have ne: "leads ?s \<noteq> []"
    by (simp add: handleLeadSubmit_def)
  have d: "downloads ?s = []"
    by (simp add: handleLeadSubmit_def initialState_def)
  have l: "leads ?s = [newLead (update_field (SetPhone ''A'') emptyForm) JUndefined (JNum 80)]"
    by (simp add: handleLeadSubmit_def initialState_def)
  have c: "spec_csv (int_digits \<circ> floor)
      [newLead (update_field (SetPhone ''A'') emptyForm) JUndefined (JNum 80)] =
      ''Phone,Email,Credit Score,Age Group,Marital Status,Comments,Consent,Initial Score,Reranked Score''
           @ [CHR 0x0A] @ ''A,,,,,'' @ [CHR 0x22, CHR 0x22] @ '',No,N/A,80''"
    by (simp add: spec_csv_def spec_header_def spec_line_def spec_score_def newLead_def
        emptyForm_def number_to_string_def int_digits_def digit_char_def)
  from exportToCSV_document [OF ne, of "int_digits \<circ> floor"]
  have "downloads (exportToCSV (int_digits \<circ> floor) ?s) =
       downloads ?s @ [\<lparr>filename = ''leads_export.csv'', mime = ''text/csv;charset=utf-8;'',
                       content = csvContent (int_digits \<circ> floor) (leads ?s)\<rparr>]"
    and "csvContent (int_digits \<circ> floor) (leads ?s) = spec_csv (int_digits \<circ> floor) (leads ?s)"
    by blast+
  with d l c ne show ?thesis by simp
qed

section \<open>The page in motion\<close>

text \<open>
  A run of the handler whose reply arrives before anything else happens is
  \<open>handleSubmit\<close>: the two parts compose to the whole.
\<close>

lemma remove_last_pending: "take (length p) (p @ [d]) @ drop (Suc (length p)) (p @ [d]) = p"
  by simp

lemma handleSubmit_split:
  "handleSubmit res s =
     (if truthy (consent (formData s))
      then step b (Reply (length (pending s)) res) (submit_start s)
      else submit_start s)"
  by (cases res rule: axios_result.exhaust)
    (auto simp add: handleSubmit_def submit_start_def submit_reply_def handleLeadSubmit_def
      Let_def split: response_data.splits)

lemma step_leads:
  "leads (step b ev s) = leads s
   \<or> (\<exists>k i r. ev = Reply k (Resolved (Data i r)) \<and> k < length (pending s)
        \<and> leads (step b ev s) = leads s @ [newLead (pending s ! k) i r])"
proof (cases ev)
  case Submit
  then show ?thesis by (simp add: submit_start_def)
next
  case (Reply k res)
  then show ?thesis
    by (cases res) (auto simp add: submit_reply_def handleLeadSubmit_def
        split: response_data.splits)
next
  case Export
  then show ?thesis by (simp add: exportToCSV_def)
qed simp_all

lemma step_quiet_leads: "\<not> is_success ev \<Longrightarrow> leads (step b ev s) = leads s"
  using step_leads [of b ev s] by auto

lemma run_quiet_leads: "\<forall>ev \<in> set q. \<not> is_success ev \<Longrightarrow> leads (run b q s) = leads s"
  by (induction q arbitrary: s) (simp_all add: step_quiet_leads)

lemma step_leads_new:
  "\<exists>new. leads (step b ev s) = leads s @ new \<and> length new \<le> length (filter is_success [ev])"
  using step_leads [of b ev s] by auto

lemma run_leads_new:
  "\<exists>new. leads (run b evs s) = leads s @ new \<and> length new \<le> length (filter is_success evs)"
proof (induction evs arbitrary: s)
  case Nil
  then show ?case by simp
next
  case (Cons ev evs)
  obtain n1 where n1: "leads (step b ev s) = leads s @ n1"
    "length n1 \<le> length (filter is_success [ev])"
    using step_leads_new [of b ev s] by blast
  obtain n2 where n2: "leads (run b evs (step b ev s)) = leads (step b ev s) @ n2"
    "length n2 \<le> length (filter is_success evs)"
    using Cons.IH [of "step b ev s"] by blast
  have "leads (run b (ev # evs) s) = leads s @ (n1 @ n2)"
    using n1(1) n2(1) by simp
  moreover have "length (n1 @ n2) \<le> length (filter is_success (ev # evs))"
    using n1(2) n2(2) by (simp split: if_splits)
  ultimately show ?case by blast
qed

lemma inv_initialState: "page_inv b initialState"
  by (simp add: page_inv_def initialState_def emptyForm_def)

lemma truthy_bool: "is_bool v \<Longrightarrow> truthy v \<Longrightarrow> v = JBool True"
  by (cases v) simp_all

lemma is_bool_update_field: "is_bool (consent d) \<Longrightarrow> is_bool (consent (update_field e d))"
  by (cases e) simp_all

lemma draft_of_newLead: "draft_of (newLead d i r) = d"
  by (simp add: draft_of_def newLead_def)

lemma newLead_consent: "consent (newLead d i r) = consent d"
  by (simp add: newLead_def)

lemma newLead_creditScore: "creditScore (newLead d i r) = creditScore d"
  by (simp add: newLead_def)

lemma inv_submit:
  assumes "page_inv b s" and "checkValidity b (formData s)"
  shows "page_inv b (submit_start s)"
proof -
  from assms have c: "consent (formData s) = JBool True"
    by (simp add: page_inv_def checkValidity_def truthy_bool)
  from assms(2) have v: "creditScore_valid (to_double b) (creditScore (formData s))"
    by (simp add: checkValidity_def)
  from assms(1) c v show ?thesis
    by (auto simp add: page_inv_def submit_start_def list_all_iff)
qed

lemma inv_reply:
  assumes "page_inv b s" and "k < length (pending s)"
  shows "page_inv b (submit_reply (pending s ! k) res
           (s\<lparr>pending := take k (pending s) @ drop (Suc k) (pending s)\<rparr>))"
proof -
  from assms have d: "consent (pending s ! k) = JBool True"
    "creditScore_valid (to_double b) (creditScore (pending s ! k))"
    "pending s ! k \<in> set (posted s)"
    by (simp_all add: page_inv_def list_all_length)
  have sub: "set (take k (pending s) @ drop (Suc k) (pending s)) \<subseteq> set (pending s)"
    using set_take_subset [of k "pending s"] set_drop_subset [of "Suc k" "pending s"] by auto
  from assms(1) have p: "list_all (\<lambda>d. consent d = JBool True
      \<and> creditScore_valid (to_double b) (creditScore d) \<and> d \<in> set (posted s))
      (take k (pending s) @ drop (Suc k) (pending s))"
    using sub unfolding page_inv_def list_all_iff by blast
  from assms(1) p d show ?thesis
    by (cases res rule: axios_result.exhaust)
      (auto simp add: page_inv_def submit_reply_def handleLeadSubmit_def draft_of_newLead
        newLead_consent newLead_creditScore emptyForm_def split: response_data.splits)
qed

lemma inv_step: "page_inv b s \<Longrightarrow> page_inv b (step b ev s)"
proof (cases ev)
  case (Edit e)
  assume "page_inv b s"
  with Edit is_bool_update_field [of "formData s" e] show ?thesis
    by (simp add: page_inv_def)
next
  case Submit
  assume "page_inv b s"
  with Submit show ?thesis by (simp add: inv_submit)
next
  case (Reply k res)
  assume "page_inv b s"
  with Reply show ?thesis by (simp add: inv_reply)
next
  case Export
  assume "page_inv b s"
  with Export show ?thesis by (simp add: page_inv_def exportToCSV_def)
qed (simp_all add: page_inv_def)

lemma inv_run: "page_inv b s \<Longrightarrow> page_inv b (run b evs s)"
  by (induction evs arbitrary: s) (simp_all add: inv_step)

lemma reachable_inv: "page_inv b (run b evs initialState)"
  by (simp add: inv_run inv_initialState)

text \<open>Example drafts and what the constraints say of them, for the runs below.\<close>

lemma parse_700: "parse_number ''700'' = Some 700"
  by (simp add: parse_number_def parse_unsigned_def parse_mantissa_def is_digit_def
      digits_value_def)

lemma parse_7e2: "parse_number ''7e2'' = Some 700"
  by (simp add: parse_number_def parse_unsigned_def parse_mantissa_def parse_exponent_def
      scale10_def is_digit_def digits_value_def)

lemma parse_1: "parse_number ''1'' = Some 1"
  by (simp add: parse_number_def parse_unsigned_def parse_mantissa_def is_digit_def
      digits_value_def)

lemma valid_example:
  assumes "required_text (phone d)" and "required_text (email d)"
    and "creditScore d = JStr ''700'' \<or> creditScore d = JStr ''7e2''"
    and "required_text (ageGroup d)" and "required_text (maritalStatus d)"
    and "annualIncome d = JStr ''1''" and "netWorth d = JStr ''1''"
    and "required_text (employmentStatus d)" and "truthy (consent d)"
  shows "checkValidity \<lparr>number_text = int_digits \<circ> floor, to_double = id,
        other_constraints = required_text \<circ> email\<rparr> d"
  using assms by (auto simp add: checkValidity_def parse_700 parse_7e2 parse_1 in_credit_range_def)

lemma invalid_emptyForm: "\<not> checkValidity b emptyForm"
  by (simp add: checkValidity_def emptyForm_def)

lemma newLead_phone: "phone (newLead d i r) = phone d"
  by (simp add: newLead_def)

lemmas run_eval =
  valid_example invalid_emptyForm newLead_phone newLead_consent newLead_creditScore
  submit_start_def submit_reply_def handleLeadSubmit_def exportToCSV_def initialState_def



lemma step_reply_success:
  "k < length (pending s) \<Longrightarrow>
   leads (step b (Reply k (Resolved (Data i r))) s) = leads s @ [newLead (pending s ! k) i r]"
  by (simp add: submit_reply_def handleLeadSubmit_def)



lemma step_submit_pending:
  "checkValidity b (formData s) \<Longrightarrow> pending (step b Submit s) = pending s @ [formData s]"
  by (simp add: checkValidity_def submit_start_def)

text \<open>
  C2: the sequence is append-only. Whatever events the page handles, with runs of the
  handler overlapping and replies arriving in any order, the sequence it started with
  remains as a prefix of the sequence it ends with, and no more records are added than
  successful replies arrived. A single event either leaves the sequence as it is, or it
  is the successful reply to a call in flight and the sequence grows at its end by the
  record of the draft that call had captured. From the initial page every draft in
  flight and every record has consent true and was posted to the scorer.
\<close>

theorem leads_append_only:
  "prefix (leads s) (leads (run b evs s))
   \<and> length (leads (run b evs s)) \<le> length (leads s) + length (filter is_success evs)
   \<and> (leads (step b ev s) = leads s
      \<or> (\<exists>k i r. ev = Reply k (Resolved (Data i r)) \<and> k < length (pending s)
           \<and> leads (step b ev s) = leads s @ [newLead (pending s ! k) i r]))
   \<and> (\<forall>d \<in> set (pending (run b evs initialState)).
         consent d = JBool True \<and> d \<in> set (posted (run b evs initialState)))
   \<and> (\<forall>l \<in> set (leads (run b evs initialState)).
         consent l = JBool True \<and> draft_of l \<in> set (posted (run b evs initialState)))"
proof -
  obtain new where n: "leads (run b evs s) = leads s @ new"
    "length new \<le> length (filter is_success evs)"
    using run_leads_new [of b evs s] by blast
  have i: "page_inv b (run b evs initialState)"
    by (rule reachable_inv)
  from n step_leads [of b ev s] i show ?thesis
    by (simp add: page_inv_def list_all_iff)
qed

theorem leads_append_only_witness:
  "map phone (leads (run \<lparr>number_text = int_digits \<circ> floor, to_double = id,
        other_constraints = required_text \<circ> email\<rparr>
      [Edit (SetPhone ''A''), Edit (SetEmail ''a@x.com''), Edit (SetCreditScore ''700''),
       Edit (SetAgeGroup ''18-25''), Edit (SetMaritalStatus ''Single''),
       Edit (SetAnnualIncome ''1''), Edit (SetNetWorth ''1''),
       Edit (SetEmploymentStatus ''Employed''), Edit (SetConsent True),
       Submit, Submit,
       Reply 0 (Resolved (Data (JNum 80) JNull)), Reply 0 (Resolved (Data (JNum 10) (JNum 20))),
       Submit, Reply 0 Rejected]
      initialState)) = [JStr ''A'', JStr ''A'']
   \<and> map consent (leads (run \<lparr>number_text = int_digits \<circ> floor, to_double = id,
        other_constraints = required_text \<circ> email\<rparr>
      [Edit (SetPhone ''A''), Edit (SetEmail ''a@x.com''), Edit (SetCreditScore ''700''),
       Edit (SetAgeGroup ''18-25''), Edit (SetMaritalStatus ''Single''),
       Edit (SetAnnualIncome ''1''), Edit (SetNetWorth ''1''),
       Edit (SetEmploymentStatus ''Employed''), Edit (SetConsent True),
       Submit, Submit,
       Reply 0 (Resolved (Data (JNum 80) JNull)), Reply 0 (Resolved (Data (JNum 10) (JNum 20))),
       Submit, Reply 0 Rejected]
      initialState)) = [JBool True, JBool True]
   \<and> length (posted (run \<lparr>number_text = int_digits \<circ> floor, to_double = id,
        other_constraints = required_text \<circ> email\<rparr>
      [Edit (SetPhone ''A''), Edit (SetEmail ''a@x.com''), Edit (SetCreditScore ''700''),
       Edit (SetAgeGroup ''18-25''), Edit (SetMaritalStatus ''Single''),
       Edit (SetAnnualIncome ''1''), Edit (SetNetWorth ''1''),
       Edit (SetEmploymentStatus ''Employed''), Edit (SetConsent True),
       Submit, Submit,
       Reply 0 (Resolved (Data (JNum 80) JNull)), Reply 0 (Resolved (Data (JNum 10) (JNum 20))),
       Submit, Reply 0 Rejected]
      initialState)) = 2
   \<and> alerts (run \<lparr>number_text = int_digits \<circ> floor, to_double = id,
        other_constraints = required_text \<circ> email\<rparr>
      [Edit (SetPhone ''A''), Edit (SetEmail ''a@x.com''), Edit (SetCreditScore ''700''),
       Edit (SetAgeGroup ''18-25''), Edit (SetMaritalStatus ''Single''),
       Edit (SetAnnualIncome ''1''), Edit (SetNetWorth ''1''),
       Edit (SetEmploymentStatus ''Employed''), Edit (SetConsent True),
       Submit, Submit,
       Reply 0 (Resolved (Data (JNum 80) JNull)), Reply 0 (Resolved (Data (JNum 10) (JNum 20))),
       Submit, Reply 0 Rejected]
      initialState) = []"
proof -
  define r where "r = run \<lparr>number_text = int_digits \<circ> floor, to_double = id,
        other_constraints = required_text \<circ> email\<rparr>
      [Edit (SetPhone ''A''), Edit (SetEmail ''a@x.com''), Edit (SetCreditScore ''700''),
       Edit (SetAgeGroup ''18-25''), Edit (SetMaritalStatus ''Single''),
       Edit (SetAnnualIncome ''1''), Edit (SetNetWorth ''1''),
       Edit (SetEmploymentStatus ''Employed''), Edit (SetConsent True),
       Submit, Submit,
       Reply 0 (Resolved (Data (JNum 80) JNull)), Reply 0 (Resolved (Data (JNum 10) (JNum 20))),
       Submit, Reply 0 Rejected]
      initialState"
  have p: "map phone (leads r) = [JStr ''A'', JStr ''A'']"
    unfolding r_def by (simp add: run_eval)
  have q: "length (posted r) = 2"
    unfolding r_def by (simp add: run_eval)
  have a: "alerts r = []"
    unfolding r_def by (simp add: run_eval)
  have "\<forall>l \<in> set (leads r). consent l = JBool True"
    unfolding r_def
    using leads_append_only [of initialState "\<lparr>number_text = int_digits \<circ> floor, to_double = id,
        other_constraints = required_text \<circ> email\<rparr>"
      "[Edit (SetPhone ''A''), Edit (SetEmail ''a@x.com''), Edit (SetCreditScore ''700''),
       Edit (SetAgeGroup ''18-25''), Edit (SetMaritalStatus ''Single''),
       Edit (SetAnnualIncome ''1''), Edit (SetNetWorth ''1''),
       Edit (SetEmploymentStatus ''Employed''), Edit (SetConsent True),
       Submit, Submit,
       Reply 0 (Resolved (Data (JNum 80) JNull)), Reply 0 (Resolved (Data (JNum 10) (JNum 20))),
       Submit, Reply 0 Rejected]" Export]
    by blast
  moreover from p obtain x y where "leads r = [x, y]"
    by auto
  ultimately have c: "map consent (leads r) = [JBool True, JBool True]"
    by simp
  from p c q a show ?thesis
    unfolding r_def by blast
qed

section \<open>The order of the records\<close>

text \<open>
  C7, as the code has it: records enter the sequence in the order in which the replies
  of the scorer arrive, each at the end. When the call that holds the draft of L1
  succeeds and later the call that holds the draft of L2 succeeds, and no other call
  succeeds between them (edits, timers, exports, further submissions and failed replies
  may happen at any point), the sequence grows by L1 then L2, and from the empty
  sequence it is exactly these two. A submission captures the draft as it is at the
  click, and \<open>handleLeadSubmit\<close> puts a record at the end of the sequence.
\<close>

theorem replies_in_order:
  assumes "\<forall>ev \<in> set q1. \<not> is_success ev" and "\<forall>ev \<in> set q2. \<not> is_success ev"
    and "s1 = run b q1 s" and "k1 < length (pending s1)"
    and "s2 = step b (Reply k1 (Resolved (Data i1 r1))) s1"
    and "s3 = run b q2 s2" and "k2 < length (pending s3)"
    and "s4 = step b (Reply k2 (Resolved (Data i2 r2))) s3"
  shows "leads s4 = leads s @ [newLead (pending s1 ! k1) i1 r1, newLead (pending s3 ! k2) i2 r2]
     \<and> (leads s = [] \<longrightarrow>
          leads s4 = [newLead (pending s1 ! k1) i1 r1, newLead (pending s3 ! k2) i2 r2])
     \<and> (checkValidity b (formData s) \<longrightarrow> pending (step b Submit s) = pending s @ [formData s])
     \<and> leads (handleLeadSubmit l s) = leads s @ [l]
     \<and> last (leads (handleLeadSubmit l s)) = l"
proof -
  have 1: "leads s1 = leads s"
    using assms(1,3) by (simp add: run_quiet_leads)
  have 2: "leads s2 = leads s1 @ [newLead (pending s1 ! k1) i1 r1]"
    using assms(4,5) by (simp only: step_reply_success)
  have 3: "leads s3 = leads s2"
    using assms(2,6) by (simp add: run_quiet_leads)
  have 4: "leads s4 = leads s3 @ [newLead (pending s3 ! k2) i2 r2]"
    using assms(7,8) by (simp only: step_reply_success)
  have 5: "checkValidity b (formData s) \<longrightarrow>
      pending (step b Submit s) = pending s @ [formData s]"
    using step_submit_pending [of b s] by blast
  have 6: "leads (handleLeadSubmit l s) = leads s @ [l]"
    by (simp add: handleLeadSubmit_def)
  from 1 2 3 4 have 7: "leads s4 =
      leads s @ [newLead (pending s1 ! k1) i1 r1, newLead (pending s3 ! k2) i2 r2]"
    by simp
  from 5 6 7 show ?thesis
    by (simp del: step.simps)
qed

theorem replies_in_order_witness:
  "0 < length (pending (run \<lparr>number_text = int_digits \<circ> floor, to_double = id,
        other_constraints = required_text \<circ> email\<rparr>
         [Edit (SetPhone ''A''), Edit (SetEmail ''a@x.com''), Edit (SetCreditScore ''700''),
       Edit (SetAgeGroup ''18-25''), Edit (SetMaritalStatus ''Single''),
       Edit (SetAnnualIncome ''1''), Edit (SetNetWorth ''1''),
       Edit (SetEmploymentStatus ''Employed''), Edit (SetConsent True),
       Submit, FormToastTimeout, Edit (SetPhone ''Z'')] initialState))
   \<and> 0 < length (pending (run \<lparr>number_text = int_digits \<circ> floor, to_double = id,
        other_constraints = required_text \<circ> email\<rparr>
         [TableToastTimeout, Export,
       Edit (SetPhone ''B''), Edit (SetEmail ''a@x.com''), Edit (SetCreditScore ''700''),
       Edit (SetAgeGroup ''18-25''), Edit (SetMaritalStatus ''Single''),
       Edit (SetAnnualIncome ''1''), Edit (SetNetWorth ''1''),
       Edit (SetEmploymentStatus ''Employed''), Edit (SetConsent True),
       Submit, FormToastTimeout]
         (step \<lparr>number_text = int_digits \<circ> floor, to_double = id,
        other_constraints = required_text \<circ> email\<rparr> (Reply 0 (Resolved (Data (JNum 80) JNull)))
           (run \<lparr>number_text = int_digits \<circ> floor, to_double = id,
        other_constraints = required_text \<circ> email\<rparr>
             [Edit (SetPhone ''A''), Edit (SetEmail ''a@x.com''), Edit (SetCreditScore ''700''),
       Edit (SetAgeGroup ''18-25''), Edit (SetMaritalStatus ''Single''),
       Edit (SetAnnualIncome ''1''), Edit (SetNetWorth ''1''),
       Edit (SetEmploymentStatus ''Employed''), Edit (SetConsent True),
       Submit, FormToastTimeout, Edit (SetPhone ''Z'')] initialState))))
   \<and> map phone (leads (step \<lparr>number_text = int_digits \<circ> floor, to_double = id,
        other_constraints = required_text \<circ> email\<rparr> (Reply 0 (Resolved (Data (JNum 10) (JNum 20))))
        (run \<lparr>number_text = int_digits \<circ> floor, to_double = id,
        other_constraints = required_text \<circ> email\<rparr>
          [TableToastTimeout, Export,
       Edit (SetPhone ''B''), Edit (SetEmail ''a@x.com''), Edit (SetCreditScore ''700''),
       Edit (SetAgeGroup ''18-25''), Edit (SetMaritalStatus ''Single''),
       Edit (SetAnnualIncome ''1''), Edit (SetNetWorth ''1''),
       Edit (SetEmploymentStatus ''Employed''), Edit (SetConsent True),
       Submit, FormToastTimeout]
          (step \<lparr>number_text = int_digits \<circ> floor, to_double = id,
        other_constraints = required_text \<circ> email\<rparr> (Reply 0 (Resolved (Data (JNum 80) JNull)))
            (run \<lparr>number_text = int_digits \<circ> floor, to_double = id,
        other_constraints = required_text \<circ> email\<rparr>
              [Edit (SetPhone ''A''), Edit (SetEmail ''a@x.com''), Edit (SetCreditScore ''700''),
       Edit (SetAgeGroup ''18-25''), Edit (SetMaritalStatus ''Single''),
       Edit (SetAnnualIncome ''1''), Edit (SetNetWorth ''1''),
       Edit (SetEmploymentStatus ''Employed''), Edit (SetConsent True),
       Submit, FormToastTimeout, Edit (SetPhone ''Z'')] initialState))))) =
       [JStr ''A'', JStr ''B'']"
proof -
  define q1 where "q1 = [Edit (SetPhone ''A''), Edit (SetEmail ''a@x.com''), Edit (SetCreditScore ''700''),
       Edit (SetAgeGroup ''18-25''), Edit (SetMaritalStatus ''Single''),
       Edit (SetAnnualIncome ''1''), Edit (SetNetWorth ''1''),
       Edit (SetEmploymentStatus ''Employed''), Edit (SetConsent True),
       Submit, FormToastTimeout, Edit (SetPhone ''Z'')]"
  define q2 where "q2 = [TableToastTimeout, Export,
       Edit (SetPhone ''B''), Edit (SetEmail ''a@x.com''), Edit (SetCreditScore ''700''),
       Edit (SetAgeGroup ''18-25''), Edit (SetMaritalStatus ''Single''),
       Edit (SetAnnualIncome ''1''), Edit (SetNetWorth ''1''),
       Edit (SetEmploymentStatus ''Employed''), Edit (SetConsent True),
       Submit, FormToastTimeout]"
  define s1 where "s1 = run \<lparr>number_text = int_digits \<circ> floor, to_double = id,
        other_constraints = required_text \<circ> email\<rparr> q1 initialState"
  define s2 where "s2 = step \<lparr>number_text = int_digits \<circ> floor, to_double = id,
        other_constraints = required_text \<circ> email\<rparr> (Reply 0 (Resolved (Data (JNum 80) JNull))) s1"
  define s3 where "s3 = run \<lparr>number_text = int_digits \<circ> floor, to_double = id,
        other_constraints = required_text \<circ> email\<rparr> q2 s2"
  define s4 where "s4 = step \<lparr>number_text = int_digits \<circ> floor, to_double = id,
        other_constraints = required_text \<circ> email\<rparr> (Reply 0 (Resolved (Data (JNum 10) (JNum 20)))) s3"
  have h1: "\<forall>ev \<in> set q1. \<not> is_success ev"
    unfolding q1_def by simp
  have h2: "\<forall>ev \<in> set q2. \<not> is_success ev"
    unfolding q2_def by simp
  have p1: "phone (pending s1 ! 0) = JStr ''A''" and k1: "0 < length (pending s1)"
    unfolding s1_def q1_def by (simp_all add: run_eval)
  have p3: "phone (pending s3 ! 0) = JStr ''B''" and k3: "0 < length (pending s3)"
    unfolding s3_def s2_def s1_def q2_def q1_def by (simp_all add: run_eval)
  have e: "leads initialState = []"
    by (simp add: initialState_def)
  from replies_in_order [OF h1 h2 s1_def k1 s2_def s3_def k3 s4_def] e
  have "leads s4 =
      [newLead (pending s1 ! 0) (JNum 80) JNull, newLead (pending s3 ! 0) (JNum 10) (JNum 20)]"
    by blast
  then have "map phone (leads s4) = [phone (pending s1 ! 0), phone (pending s3 ! 0)]"
    by (simp add: newLead_phone)
  with p1 p3 have m: "map phone (leads s4) = [JStr ''A'', JStr ''B'']"
    by (simp only:)
  from k1 k3 m show ?thesis
    unfolding s4_def s3_def s2_def s1_def q2_def q1_def by blast
qed

text \<open>
  The order of the clicks alone does not decide the order of the records: a lead A is
  submitted, the phone is changed to B while the call is in flight, the form is
  submitted again, and the reply to the second call arrives first. Both calls succeed;
  the posts are A then B, the records B then A.
\<close>

theorem submission_order_counterexample:
  "map phone (posted (run \<lparr>number_text = int_digits \<circ> floor, to_double = id,
        other_constraints = required_text \<circ> email\<rparr>
      [Edit (SetPhone ''A''), Edit (SetEmail ''a@x.com''), Edit (SetCreditScore ''700''),
       Edit (SetAgeGroup ''18-25''), Edit (SetMaritalStatus ''Single''),
       Edit (SetAnnualIncome ''1''), Edit (SetNetWorth ''1''),
       Edit (SetEmploymentStatus ''Employed''), Edit (SetConsent True),
       Submit, Edit (SetPhone ''B''), Submit,
       Reply 1 (Resolved (Data (JNum 10) (JNum 20))),
       Reply 0 (Resolved (Data (JNum 80) (JNum 75)))]
      initialState)) = [JStr ''A'', JStr ''B'']
   \<and> map phone (leads (run \<lparr>number_text = int_digits \<circ> floor, to_double = id,
        other_constraints = required_text \<circ> email\<rparr>
      [Edit (SetPhone ''A''), Edit (SetEmail ''a@x.com''), Edit (SetCreditScore ''700''),
       Edit (SetAgeGroup ''18-25''), Edit (SetMaritalStatus ''Single''),
       Edit (SetAnnualIncome ''1''), Edit (SetNetWorth ''1''),
       Edit (SetEmploymentStatus ''Employed''), Edit (SetConsent True),
       Submit, Edit (SetPhone ''B''), Submit,
       Reply 1 (Resolved (Data (JNum 10) (JNum 20))),
       Reply 0 (Resolved (Data (JNum 80) (JNum 75)))]
      initialState)) = [JStr ''B'', JStr ''A'']
   \<and> map phone (leads (run \<lparr>number_text = int_digits \<circ> floor, to_double = id,
        other_constraints = required_text \<circ> email\<rparr>
      [Edit (SetPhone ''A''), Edit (SetEmail ''a@x.com''), Edit (SetCreditScore ''700''),
       Edit (SetAgeGroup ''18-25''), Edit (SetMaritalStatus ''Single''),
       Edit (SetAnnualIncome ''1''), Edit (SetNetWorth ''1''),
       Edit (SetEmploymentStatus ''Employed''), Edit (SetConsent True),
       Submit, Edit (SetPhone ''B''), Submit,
       Reply 1 (Resolved (Data (JNum 10) (JNum 20))),
       Reply 0 (Resolved (Data (JNum 80) (JNum 75)))]
      initialState)) \<noteq> [JStr ''A'', JStr ''B'']"
  by (simp add: run_eval)

text \<open>
  When the first submission has its reply before the second is made, and no other call
  is in flight, the records are in the order of the submissions, whatever is edited,
  exported or timed out in between.
\<close>

lemma step_quiet:
  "is_quiet ev \<Longrightarrow> pending (step b ev s) = pending s \<and> leads (step b ev s) = leads s"
  by (cases ev) (simp_all add: exportToCSV_def)

lemma run_quiet:
  "\<forall>ev \<in> set q. is_quiet ev \<Longrightarrow>
   pending (run b q s) = pending s \<and> leads (run b q s) = leads s"
  by (induction q arbitrary: s) (simp_all add: step_quiet)

lemma step_submit_leads: "leads (step b Submit s) = leads s"
  by (simp add: submit_start_def)

lemma step_reply_first:
  "pending s = [d] \<Longrightarrow>
   leads (step b (Reply 0 (Resolved (Data i r))) s) = leads s @ [newLead d i r]
   \<and> pending (step b (Reply 0 (Resolved (Data i r))) s) = []"
  by (simp add: submit_reply_def handleLeadSubmit_def)

lemma sequential_submissions:
  assumes "pending s = []" and "checkValidity b (formData s)"
    and "\<forall>ev \<in> set qa. is_quiet ev" and "\<forall>ev \<in> set qb. is_quiet ev"
    and "\<forall>ev \<in> set qc. is_quiet ev"
    and "s1 = run b qa (step b Submit s)"
    and "s2 = run b qb (step b (Reply 0 (Resolved (Data i1 r1))) s1)"
    and "checkValidity b (formData s2)"
    and "s3 = run b qc (step b Submit s2)"
    and "s4 = step b (Reply 0 (Resolved (Data i2 r2))) s3"
  shows "leads s4 = leads s @ [newLead (formData s) i1 r1, newLead (formData s2) i2 r2]"
proof -
  have a: "pending s1 = [formData s]" "leads s1 = leads s"
    using assms(1,2,3,6) run_quiet [of qa b "step b Submit s"]
      step_submit_pending [of b s] step_submit_leads [of b s]
    by simp_all
  have b: "pending s2 = []" "leads s2 = leads s @ [newLead (formData s) i1 r1]"
    using assms(4,7) a run_quiet [of qb b "step b (Reply 0 (Resolved (Data i1 r1))) s1"]
      step_reply_first [of s1 "formData s" b i1 r1]
    by simp_all
  have c: "pending s3 = [formData s2]" "leads s3 = leads s2"
    using assms(5,8,9) b(1) run_quiet [of qc b "step b Submit s2"]
      step_submit_pending [of b s2] step_submit_leads [of b s2]
    by simp_all
  from c b(2) assms(10) step_reply_first [of s3 "formData s2" b i2 r2]
  show ?thesis by simp
qed

section \<open>The credit score of a record\<close>








end
